theory Spec2Isabelle
  imports Main "HOL-Library.Char_ord" "HOL-Library.List_Lexorder"
begin

section \<open>Go library functions used by the classroom controller\<close>

text \<open>
  A Go \<^verbatim>\<open>string\<close> is a sequence of bytes, here a \<^typ>\<open>string\<close> (a list of
  \<^typ>\<open>char\<close>, one per byte). A Go \<^verbatim>\<open>error\<close> is represented by its message; the
  \<^verbatim>\<open>nil\<close> error is \<^term>\<open>None\<close>.
\<close>

type_synonym error = string

subsection \<open>regexp: the pattern of valid classroom names\<close>

text \<open>
  The syntax tree of the regular expressions that occur in the program. A character
  class is a list of inclusive byte ranges. Matching is by derivatives, so that it can
  be evaluated on any concrete name.
\<close>

datatype regexp =
    Fail
  | Eps
  | CharClass "(char \<times> char) list"
  | Cat regexp regexp
  | Alt regexp regexp
  | Star regexp

definition in_range :: "char \<Rightarrow> char \<times> char \<Rightarrow> bool" where
  "in_range c r = (fst r \<le> c \<and> c \<le> snd r)"

definition in_class :: "(char \<times> char) list \<Rightarrow> char \<Rightarrow> bool" where
  "in_class rs c = list_ex (in_range c) rs"

fun nullable :: "regexp \<Rightarrow> bool" where
  "nullable Fail = False"
| "nullable Eps = True"
| "nullable (CharClass rs) = False"
| "nullable (Cat r s) = (nullable r \<and> nullable s)"
| "nullable (Alt r s) = (nullable r \<or> nullable s)"
| "nullable (Star r) = True"

fun deriv :: "char \<Rightarrow> regexp \<Rightarrow> regexp" where
  "deriv c Fail = Fail"
| "deriv c Eps = Fail"
| "deriv c (CharClass rs) = (if in_class rs c then Eps else Fail)"
| "deriv c (Cat r s) =
     (if nullable r then Alt (Cat (deriv c r) s) (deriv c s) else Cat (deriv c r) s)"
| "deriv c (Alt r s) = Alt (deriv c r) (deriv c s)"
| "deriv c (Star r) = Cat (deriv c r) (Star r)"

text \<open>\<open>whole_match r s\<close>: the regular expression \<open>r\<close> matches all of \<open>s\<close>.\<close>

fun whole_match :: "regexp \<Rightarrow> string \<Rightarrow> bool" where
  "whole_match r [] = nullable r"
| "whole_match r (c # cs) = whole_match (deriv c r) cs"

text \<open>
  \<^verbatim>\<open>const requiredPattern = `^[a-zA-Z][-a-zA-Z0-9]*$`\<close> and
  \<^verbatim>\<open>regex := regexp.MustCompile(requiredPattern)\<close>. The pattern is valid, so
  \<^verbatim>\<open>MustCompile\<close> does not panic; \<open>regex\<close> is the expression between the two
  anchors. The pattern begins with \<^verbatim>\<open>^\<close> and ends with \<^verbatim>\<open>$\<close> and sets no flag, so
  a match can only start at the beginning of the text and end at its end:
  \<^verbatim>\<open>regex.MatchString(name)\<close> holds exactly when \<open>regex\<close> matches the whole of
  \<open>name\<close>. A byte above 0x7F belongs to neither class, as the rune that Go decodes
  there does not.
\<close>

definition requiredPattern :: string where
  "requiredPattern = ''^[a-zA-Z][-a-zA-Z0-9]*$''"

definition regex :: regexp where
  "regex =
     Cat (CharClass [(CHR ''a'', CHR ''z''), (CHR ''A'', CHR ''Z'')])
         (Star (CharClass [(CHR ''-'', CHR ''-''), (CHR ''a'', CHR ''z''),
                           (CHR ''A'', CHR ''Z''), (CHR ''0'', CHR ''9'')]))"

definition MatchString :: "regexp \<Rightarrow> string \<Rightarrow> bool" where
  "MatchString r s = whole_match r s"

subsection \<open>strconv: \<open>Itoa\<close> and \<open>Atoi\<close>\<close>

text \<open>
  Go's \<^verbatim>\<open>int\<close> is modelled by \<^typ>\<open>int\<close>; \<open>IntSize\<close> is \<^verbatim>\<open>strconv.IntSize\<close>,
  the width of \<^verbatim>\<open>int\<close> on the 64-bit platforms the tool is built for. It only
  matters to \<open>Atoi\<close>, which reports a value outside that range as an error.
\<close>

definition IntSize :: nat where
  "IntSize = 64"

text \<open>The digit for a value below ten, read from the table of digits as \<^verbatim>\<open>strconv\<close> does.\<close>

definition digit_char :: "nat \<Rightarrow> char" where
  "digit_char d = ''0123456789'' ! d"

fun decimal :: "nat \<Rightarrow> string" where
  "decimal n = (if n < 10 then [digit_char n] else decimal (n div 10) @ [digit_char (n mod 10)])"

declare decimal.simps [simp del]

text \<open>\<^verbatim>\<open>strconv.Itoa(i)\<close>: the decimal digits of \<open>i\<close>, after a minus sign when \<open>i < 0\<close>.\<close>

definition Itoa :: "int \<Rightarrow> string" where
  "Itoa i = (if i < 0 then CHR ''-'' # decimal (nat (- i)) else decimal (nat i))"

definition is_digit :: "char \<Rightarrow> bool" where
  "is_digit c = (CHR ''0'' \<le> c \<and> c \<le> CHR ''9'')"

definition digit_val :: "char \<Rightarrow> nat" where
  "digit_val c = of_char c - 48"

text \<open>The value of a digit string, most significant digit first (\<^verbatim>\<open>n = n*10 + int(ch)\<close>).\<close>

definition digits_val :: "string \<Rightarrow> nat" where
  "digits_val ds = foldl (\<lambda>n ch. n * 10 + digit_val ch) 0 ds"

text \<open>
  \<^verbatim>\<open>strconv.Atoi(s)\<close>: an optional sign \<^verbatim>\<open>+\<close> or \<^verbatim>\<open>-\<close>, then one or more decimal
  digits and nothing else (base 10 accepts no underscore, prefix or space); the value
  must fit \<^verbatim>\<open>int\<close>. \<^term>\<open>None\<close> is the error return (a syntax or a range error; the
  controller does not look at which).
\<close>

definition Atoi :: "string \<Rightarrow> int option" where
  "Atoi s =
     (let neg = (s \<noteq> [] \<and> hd s = CHR ''-'');
          ds = (if s \<noteq> [] \<and> (hd s = CHR ''-'' \<or> hd s = CHR ''+'') then tl s else s)
      in if ds = [] \<or> \<not> list_all is_digit ds then None
         else let n = (if neg then - int (digits_val ds) else int (digits_val ds))
              in if n < - (2 ^ (IntSize - 1)) \<or> 2 ^ (IntSize - 1) - 1 < n then None
                 else Some n)"

subsection \<open>strings: \<open>TrimPrefix\<close> and \<open>Join\<close>\<close>

definition HasPrefix :: "string \<Rightarrow> string \<Rightarrow> bool" where
  "HasPrefix s p = (take (length p) s = p)"

definition TrimPrefix :: "string \<Rightarrow> string \<Rightarrow> string" where
  "TrimPrefix s p = (if HasPrefix s p then drop (length p) s else s)"

fun Join :: "string list \<Rightarrow> string \<Rightarrow> string" where
  "Join [] sep = []"
| "Join [x] sep = x"
| "Join (x # y # ys) sep = x @ sep @ Join (y # ys) sep"

subsection \<open>encoding/json: \<open>MarshalIndent\<close> with prefix \<^verbatim>\<open>""\<close> and indent of four spaces\<close>

text \<open>
  A Go slice or map that is only read is a list or a partial function. Where the
  program hands one to \<^verbatim>\<open>json.MarshalIndent\<close>, \<^verbatim>\<open>nil\<close> is told apart from empty:
  the value is an \<open>option\<close>, with \<^term>\<open>None\<close> for \<^verbatim>\<open>nil\<close>, which JSON renders as
  \<^verbatim>\<open>null\<close>. A map that the program ranges over is an association list with distinct
  keys, in the order in which \<^verbatim>\<open>range\<close> visits the entries (Go leaves that order
  unspecified, so the theorems hold for every order).

  The JSON encoding of one string (quotes, escapes, replacement of invalid UTF-8) is
  Go's own and is not reproduced here: it is the parameter \<open>enc\<close> of the functions
  below.
\<close>

definition nl :: string where
  "nl = [CHR 0x0A]"

definition tab :: string where
  "tab = [CHR 0x09]"

definition indent :: string where
  "indent = ''    ''"

definition quoted :: "string \<Rightarrow> string" where
  "quoted s = [CHR 0x22] @ s @ [CHR 0x22]"

text \<open>\<^verbatim>\<open>json.MarshalIndent(keys, "", "    ")\<close> for \<^verbatim>\<open>keys []string\<close>.\<close>

definition MarshalIndent_strings :: "(string \<Rightarrow> string) \<Rightarrow> string list option \<Rightarrow> string" where
  "MarshalIndent_strings enc keys =
     (case keys of
        None \<Rightarrow> ''null''
      | Some [] \<Rightarrow> ''[]''
      | Some ks \<Rightarrow> ''['' @ nl @ indent @ Join (map enc ks) ('','' @ nl @ indent) @ nl @ '']'')"

text \<open>
  A \<^verbatim>\<open>map[string]string\<close> as the value of a field of the top-level object: the keys
  sorted as byte strings, entries indented by two levels.
\<close>

definition MarshalIndent_map :: "(string \<Rightarrow> string) \<Rightarrow> (string \<times> string) list option \<Rightarrow> string" where
  "MarshalIndent_map enc m =
     (case m of
        None \<Rightarrow> ''null''
      | Some [] \<Rightarrow> ''{}''
      | Some kvs \<Rightarrow>
          ''{'' @ nl @ indent @ indent
          @ Join (map (\<lambda>kv. enc (fst kv) @ '': '' @ enc (snd kv)) (sort_key fst kvs))
                 ('','' @ nl @ indent @ indent)
          @ nl @ indent @ ''}'')"

text \<open>
  The anonymous struct \<^verbatim>\<open>description\<close> of \<^verbatim>\<open>DescribeClassroom\<close>, with its JSON
  field names, and its rendering: the fields in declaration order.
\<close>

record description =
  Status :: string
  Number :: int
  SSHKey :: string
  Hosts :: "(string \<times> string) list option"

definition MarshalIndent_description :: "(string \<Rightarrow> string) \<Rightarrow> description \<Rightarrow> string" where
  "MarshalIndent_description enc d =
     ''{'' @ nl
     @ indent @ quoted ''status'' @ '': '' @ enc (Status d) @ '','' @ nl
     @ indent @ quoted ''number'' @ '': '' @ Itoa (Number d) @ '','' @ nl
     @ indent @ quoted ''ssh_key'' @ '': '' @ enc (SSHKey d) @ '','' @ nl
     @ indent @ quoted ''hosts'' @ '': '' @ MarshalIndent_map enc (Hosts d) @ nl
     @ ''}''"

section \<open>Package aws: the EC2 key operations of \<open>Client\<close>\<close>

text \<open>
  \<^verbatim>\<open>ec2.CreateKeyPairOutput\<close>: both fields are pointers, \<^term>\<open>None\<close> is \<^verbatim>\<open>nil\<close>.
  The SDK call gets the requested name (\<^verbatim>\<open>aws.String(name)\<close>, never \<^verbatim>\<open>nil\<close>) and
  returns an output and an error.
\<close>

record CreateKeyPairOutput =
  KeyName :: "string option"
  KeyMaterial :: "string option"

record EC2API =
  CreateKeyPair :: "string \<Rightarrow> CreateKeyPairOutput \<times> error option"
  DeleteKeyPair :: "string \<Rightarrow> error option"

record Client =
  EC2 :: EC2API

definition Client_CreateKey :: "Client \<Rightarrow> string \<Rightarrow> string \<times> error option" where
  "Client_CreateKey c name =
     (let (out, err) = CreateKeyPair (EC2 c) name
      in case err of
           Some e \<Rightarrow> ([], Some e)
         | None \<Rightarrow>
            (case KeyName out of
               None \<Rightarrow> ([], Some ''CreateKeyPair returned invalid data'')
             | Some outName \<Rightarrow>
                if outName \<noteq> name
                then ([], Some (''tried to create key named '' @ [CHR 0x27] @ name @ [CHR 0x27]
                                 @ '' but generated key was called '' @ [CHR 0x27] @ outName
                                 @ [CHR 0x27]))
                else if KeyMaterial out = None \<or> KeyMaterial out = Some []
                then ([], Some ''CreateKeyPair returned an empty key'')
                else (the (KeyMaterial out), None)))"

definition Client_DeleteKey :: "Client \<Rightarrow> string \<Rightarrow> error option" where
  "Client_DeleteKey c name = DeleteKeyPair (EC2 c) name"

section \<open>Package controller\<close>

subsection \<open>The collaborators and what the controller does to them\<close>

text \<open>
  Every call of a method of \<^verbatim>\<open>atlasClient\<close> or \<^verbatim>\<open>awsClient\<close> is recorded, in order,
  with its arguments.
\<close>

datatype call =
    Call_GetLatestAMIs string
  | Call_CreateKey string
  | Call_DeleteKey string
  | Call_ListKeys string
  | Call_StoreObject string string string string
  | Call_DeleteObject string
  | Call_URLForObject string
  | Call_CreateStack string string "string \<rightharpoonup> string"
  | Call_DeleteStack string
  | Call_DescribeStack string
  | Call_GetHostsFromStackID string

text \<open>
  The interfaces. A collaborator may keep state, so what a method returns is a function
  of the calls made before it (the first argument) and of its own arguments.
\<close>

record atlasClient =
  GetLatestAMIs :: "call list \<Rightarrow> string \<Rightarrow> (string \<rightharpoonup> string) \<times> error option"

record awsClient =
  CreateKey :: "call list \<Rightarrow> string \<Rightarrow> string \<times> error option"
  DeleteKey :: "call list \<Rightarrow> string \<Rightarrow> error option"
  ListKeys :: "call list \<Rightarrow> string \<Rightarrow> string list option \<times> error option"
  StoreObject :: "call list \<Rightarrow> string \<Rightarrow> string \<Rightarrow> string \<Rightarrow> string \<Rightarrow> error option"
  DeleteObject :: "call list \<Rightarrow> string \<Rightarrow> error option"
  URLForObject :: "call list \<Rightarrow> string \<Rightarrow> string"
  CreateStack :: "call list \<Rightarrow> string \<Rightarrow> string \<Rightarrow> (string \<rightharpoonup> string) \<Rightarrow> string \<times> error option"
  DeleteStack :: "call list \<Rightarrow> string \<Rightarrow> error option"
  DescribeStack ::
    "call list \<Rightarrow> string \<Rightarrow> string \<times> string \<times> (string \<rightharpoonup> string) \<times> error option"
  GetHostsFromStackID :: "call list \<Rightarrow> string \<Rightarrow> (string \<times> string) list option \<times> error option"

text \<open>
  \<^verbatim>\<open>cliLogger\<close>: \<open>Green\<close> formats a string; \<^verbatim>\<open>Println\<close> returns nothing and is the
  effect \<open>Println\<close> below, which appends the line (indentation, format, arguments) to
  what has been printed.
\<close>

record cliLogger =
  Green :: "string \<Rightarrow> string list \<Rightarrow> string"

record Controller =
  AtlasClient :: atlasClient
  AWSClient :: awsClient
  Log :: cliLogger
  VagrantBoxName :: string
  Region :: string
  Template :: string

record world =
  calls :: "call list"
  printed :: "(int \<times> string \<times> string list) list"

definition invoke :: "call \<Rightarrow> world \<Rightarrow> world" where
  "invoke k w = w\<lparr>calls := calls w @ [k]\<rparr>"

definition Println :: "int \<Rightarrow> string \<Rightarrow> string list \<Rightarrow> world \<Rightarrow> world" where
  "Println indentation format args w = w\<lparr>printed := printed w @ [(indentation, format, args)]\<rparr>"

subsection \<open>The workflows\<close>

definition prefix :: "string \<Rightarrow> string" where
  "prefix classroomName = ''classroom-'' @ classroomName"

definition CreateClassroom :: "Controller \<Rightarrow> string \<Rightarrow> int \<Rightarrow> world \<Rightarrow> error option \<times> world" where
  "CreateClassroom c name number w0 =
     (if \<not> MatchString regex name
      then (Some (''invalid name: must match pattern '' @ requiredPattern), w0)
      else
        let w1 = Println 0 ''Looking up latest AMI for %s''
                   [Green (Log c) ''%s'' [VagrantBoxName c]] w0;
            (amiMap, err) = GetLatestAMIs (AtlasClient c) (calls w1) (VagrantBoxName c);
            w2 = invoke (Call_GetLatestAMIs (VagrantBoxName c)) w1
        in case err of
             Some e \<Rightarrow> (Some e, w2)
           | None \<Rightarrow>
        (case amiMap (Region c) of
           None \<Rightarrow> (Some (''Couldn't find AMI in region '' @ Region c), w2)
         | Some ami \<Rightarrow>
        (let w3 = Println 0 ''Found %s'' [Green (Log c) ''%s'' [ami]] w2;
            prefixedName = prefix name;
            w4 = Println 0 ''Creating SSH Keypair %s'' [Green (Log c) ''%s'' [prefixedName]] w3;
            (privateKeyPEMBytes, err) = CreateKey (AWSClient c) (calls w4) prefixedName;
            w5 = invoke (Call_CreateKey prefixedName) w4
        in case err of
             Some e \<Rightarrow> (Some e, w5)
           | None \<Rightarrow>
        (let s3Name = ''keys/'' @ prefixedName;
            s3URL = URLForObject (AWSClient c) (calls w5) s3Name;
            w6 = invoke (Call_URLForObject s3Name) w5;
            w7 = Println 0 ''Uploading private key to %s'' [Green (Log c) ''%s'' [s3URL]] w6;
            err = StoreObject (AWSClient c) (calls w7) s3Name privateKeyPEMBytes
                    ''bosh101_ssh_key.pem'' ''application/x-pem-file'';
            w8 = invoke (Call_StoreObject s3Name privateKeyPEMBytes
                    ''bosh101_ssh_key.pem'' ''application/x-pem-file'') w7
        in case err of
             Some e \<Rightarrow> (Some e, w8)
           | None \<Rightarrow>
        (let w9 = Println 0 ''Creating CloudFormation stack %s''
                   [Green (Log c) ''%s'' [prefixedName]] w8;
            parameters = [''AMI'' \<mapsto> ami, ''KeyName'' \<mapsto> prefixedName,
                          ''InstanceCount'' \<mapsto> Itoa number];
            (stackID, err) = CreateStack (AWSClient c) (calls w9) prefixedName (Template c) parameters;
            w10 = invoke (Call_CreateStack prefixedName (Template c) parameters) w9
        in (err, w10))))))"

definition DestroyClassroom :: "Controller \<Rightarrow> string \<Rightarrow> world \<Rightarrow> error option \<times> world" where
  "DestroyClassroom c name w0 =
     (let prefixedName = prefix name;
          w1 = Println 0 ''Deleting CloudFormation stack %s''
                 [Green (Log c) ''%s'' [prefixedName]] w0;
          err = DeleteStack (AWSClient c) (calls w1) prefixedName;
          w2 = invoke (Call_DeleteStack prefixedName) w1
      in case err of
           Some e \<Rightarrow> (Some e, w2)
         | None \<Rightarrow>
      (let w3 = Println 0 ''Deleting classroom keypair...'' [] w2;
          err = DeleteKey (AWSClient c) (calls w3) prefixedName;
          w4 = invoke (Call_DeleteKey prefixedName) w3
      in case err of
           Some e \<Rightarrow> (Some e, w4)
         | None \<Rightarrow>
      (let s3Name = ''keys/'' @ prefixedName;
          w5 = Println 0 ''Deleting private key from S3...'' [] w4;
          err = DeleteObject (AWSClient c) (calls w5) s3Name;
          w6 = invoke (Call_DeleteObject s3Name) w5
      in (err, w6))))"

definition format_error :: error where
  "format_error = ''expected format to be either '' @ [CHR 0x27] @ ''json'' @ [CHR 0x27]
                  @ '' or '' @ [CHR 0x27] @ ''plain'' @ [CHR 0x27]"

definition ListClassrooms ::
  "(string \<Rightarrow> string) \<Rightarrow> Controller \<Rightarrow> string \<Rightarrow> world \<Rightarrow> (string \<times> error option) \<times> world" where
  "ListClassrooms enc c format w0 =
     (let (keys, err) = ListKeys (AWSClient c) (calls w0) ''classroom-'';
          w1 = invoke (Call_ListKeys ''classroom-'') w0
      in case err of
           Some e \<Rightarrow> (([], Some e), w1)
         | None \<Rightarrow>
      let keys = map_option (map (\<lambda>k. TrimPrefix k ''classroom-'')) keys
      in if format = ''json'' then ((MarshalIndent_strings enc keys, None), w1)
         else if format = ''plain''
         then ((Join (case keys of None \<Rightarrow> [] | Some ks \<Rightarrow> ks) nl, None), w1)
         else (([], Some format_error), w1))"

definition malformed_error :: error where
  "malformed_error = ''malformed CloudFormation stack: missing or invalid parameter ''
                     @ [CHR 0x27] @ ''InstanceCount'' @ [CHR 0x27]"

definition DescribeClassroom ::
  "(string \<Rightarrow> string) \<Rightarrow> Controller \<Rightarrow> string \<Rightarrow> string \<Rightarrow> world \<Rightarrow> (string \<times> error option) \<times> world" where
  "DescribeClassroom enc c name format w0 =
     (let prefixedName = prefix name;
          (status, stackID, parameters, err) = DescribeStack (AWSClient c) (calls w0) prefixedName;
          w1 = invoke (Call_DescribeStack prefixedName) w0
      in case err of
           Some e \<Rightarrow> (([], Some e), w1)
         | None \<Rightarrow>
      (let keyURL = URLForObject (AWSClient c) (calls w1) (''keys/'' @ prefixedName);
          w2 = invoke (Call_URLForObject (''keys/'' @ prefixedName)) w1
      in case Atoi (case parameters ''InstanceCount'' of None \<Rightarrow> [] | Some v \<Rightarrow> v) of
           None \<Rightarrow> (([], Some malformed_error), w2)
         | Some n \<Rightarrow>
      (let (hosts, err) = GetHostsFromStackID (AWSClient c) (calls w2) stackID;
          w3 = invoke (Call_GetHostsFromStackID stackID) w2
      in case err of
           Some e \<Rightarrow> (([], Some (''error fetching hosts for stack: '' @ e)), w3)
         | None \<Rightarrow>
      (let d = \<lparr>Status = status, Number = n, SSHKey = keyURL, Hosts = hosts\<rparr>
      in if format = ''json'' then ((MarshalIndent_description enc d, None), w3)
         else if format = ''plain''
         then ((''status: '' @ Status d @ nl
                @ ''number: '' @ Itoa (Number d) @ nl
                @ ''ssh_key: '' @ SSHKey d @ nl
                @ ''hosts:'' @ nl
                @ Join (map (\<lambda>kv. fst kv @ tab @ snd kv)
                          (case Hosts d of None \<Rightarrow> [] | Some kvs \<Rightarrow> kvs)) nl, None), w3)
         else (([], Some format_error), w3)))))"

section \<open>Vocabulary of the properties\<close>

text \<open>The calls that a workflow added to the record of calls.\<close>

definition new_calls :: "world \<Rightarrow> world \<Rightarrow> call list" where
  "new_calls w w' = drop (length (calls w)) (calls w')"

text \<open>
  The characters of the two classes of the pattern, written out: a name matches when it
  starts with a letter and goes on with letters, digits and hyphens only.
\<close>

definition is_letter :: "char \<Rightarrow> bool" where
  "is_letter c = ((CHR ''a'' \<le> c \<and> c \<le> CHR ''z'') \<or> (CHR ''A'' \<le> c \<and> c \<le> CHR ''Z''))"

definition is_name_char :: "char \<Rightarrow> bool" where
  "is_name_char c = (c = CHR ''-'' \<or> is_letter c \<or> is_digit c)"

definition valid_name :: "string \<Rightarrow> bool" where
  "valid_name name = (name \<noteq> [] \<and> is_letter (hd name) \<and> list_all is_name_char (tl name))"

text \<open>
  What reads as a decimal integer: an optional sign, then at least one digit, and
  nothing else.
\<close>

definition decimal_literal :: "string \<Rightarrow> bool" where
  "decimal_literal s =
     (case s of
        [] \<Rightarrow> False
      | c # cs \<Rightarrow> if c = CHR ''-'' \<or> c = CHR ''+'' then cs \<noteq> [] \<and> list_all is_digit cs
                 else list_all is_digit s)"

text \<open>
  The provider resources of a classroom, and which resource a call creates, deletes or
  reads. The naming contract of the specification: the keypair and the stack of the
  classroom \<open>name\<close> are called \<open>prefix name\<close>, the stored key object
  \<^verbatim>\<open>keys/\<close> followed by \<open>prefix name\<close>.
\<close>

datatype resource = Keypair string | Object string | Stack string

fun creates :: "call \<Rightarrow> resource option" where
  "creates (Call_CreateKey n) = Some (Keypair n)"
| "creates (Call_StoreObject n b f t) = Some (Object n)"
| "creates (Call_CreateStack n t ps) = Some (Stack n)"
| "creates _ = None"

fun deletes :: "call \<Rightarrow> resource option" where
  "deletes (Call_DeleteKey n) = Some (Keypair n)"
| "deletes (Call_DeleteObject n) = Some (Object n)"
| "deletes (Call_DeleteStack n) = Some (Stack n)"
| "deletes _ = None"

fun reads :: "call \<Rightarrow> resource option" where
  "reads (Call_DescribeStack n) = Some (Stack n)"
| "reads (Call_URLForObject n) = Some (Object n)"
| "reads _ = None"

fun follows_scheme :: "string \<Rightarrow> call \<Rightarrow> bool" where
  "follows_scheme name (Call_CreateKey n) = (n = prefix name)"
| "follows_scheme name (Call_DeleteKey n) = (n = prefix name)"
| "follows_scheme name (Call_StoreObject n b f t) = (n = ''keys/'' @ prefix name)"
| "follows_scheme name (Call_DeleteObject n) = (n = ''keys/'' @ prefix name)"
| "follows_scheme name (Call_URLForObject n) = (n = ''keys/'' @ prefix name)"
| "follows_scheme name (Call_CreateStack n t ps) =
     (n = prefix name \<and> ps ''KeyName'' = Some (prefix name))"
| "follows_scheme name (Call_DeleteStack n) = (n = prefix name)"
| "follows_scheme name (Call_DescribeStack n) = (n = prefix name)"
| "follows_scheme name (Call_GetLatestAMIs b) = True"
| "follows_scheme name (Call_ListKeys p) = True"
| "follows_scheme name (Call_GetHostsFromStackID i) = True"

section \<open>A recording fake of the collaborators, for concrete runs\<close>

definition fakeAtlas :: atlasClient where
  "fakeAtlas = \<lparr>GetLatestAMIs = (\<lambda>h box. ([''us-east-1'' \<mapsto> ''ami-1234''], None))\<rparr>"

definition fakeAWS :: awsClient where
  "fakeAWS =
     \<lparr>CreateKey = (\<lambda>h n. (''PEM'', None)),
      DeleteKey = (\<lambda>h n. None),
      ListKeys = (\<lambda>h p. (Some [''classroom-a'', ''classroom-b''], None)),
      StoreObject = (\<lambda>h n b f t. None),
      DeleteObject = (\<lambda>h n. None),
      URLForObject = (\<lambda>h n. ''https://s3/'' @ n),
      CreateStack = (\<lambda>h n t ps. (''stack-1'', None)),
      DeleteStack = (\<lambda>h n. None),
      DescribeStack = (\<lambda>h n. (''CREATE_COMPLETE'', ''stack-1'', [''InstanceCount'' \<mapsto> ''3''], None)),
      GetHostsFromStackID = (\<lambda>h i. (Some [(''vm-0'', ''10.0.0.1'')], None))\<rparr>"

definition fakeController :: Controller where
  "fakeController =
     \<lparr>AtlasClient = fakeAtlas, AWSClient = fakeAWS, Log = \<lparr>Green = (\<lambda>f args. concat args)\<rparr>,
      VagrantBoxName = ''box'', Region = ''us-east-1'', Template = ''template''\<rparr>"

definition w_init :: world where
  "w_init = \<lparr>calls = [], printed = []\<rparr>"

text \<open>A provider with no keypairs whose \<open>ListKeys\<close> returns the \<^verbatim>\<open>nil\<close> slice.\<close>

definition nilKeysController :: Controller where
  "nilKeysController =
     fakeController\<lparr>AWSClient := fakeAWS\<lparr>ListKeys := (\<lambda>h p. (None, None))\<rparr>\<rparr>"

text \<open>A stack with two hosts, which \<^verbatim>\<open>range\<close> happens to visit in descending order.\<close>

definition twoHostsController :: Controller where
  "twoHostsController =
     fakeController\<lparr>AWSClient := fakeAWS\<lparr>GetHostsFromStackID :=
       (\<lambda>h i. (Some [(''vm-1'', ''10.0.0.2''), (''vm-0'', ''10.0.0.1'')], None))\<rparr>\<rparr>"

section \<open>Facts about the library functions\<close>

lemma whole_match_Fail: "whole_match Fail s = False"
  by (induction s) auto

lemma whole_match_Cat_Fail: "whole_match (Cat Fail r) s = False"
  by (induction s) auto

lemma whole_match_Alt: "whole_match (Alt r1 r2) s = (whole_match r1 s \<or> whole_match r2 s)"
  by (induction s arbitrary: r1 r2) auto

lemma whole_match_Cat_Eps: "whole_match (Cat Eps r) s = whole_match r s"
  by (cases s) (auto simp: whole_match_Alt whole_match_Cat_Fail)

lemma whole_match_Star_class: "whole_match (Star (CharClass rs)) s = list_all (in_class rs) s"
  by (induction s) (auto simp: whole_match_Cat_Eps whole_match_Cat_Fail)

lemma in_class_letters:
  "in_class [(CHR ''a'', CHR ''z''), (CHR ''A'', CHR ''Z'')] c = is_letter c"
  by (auto simp: in_class_def in_range_def is_letter_def)

lemma in_class_name_chars:
  "in_class [(CHR ''-'', CHR ''-''), (CHR ''a'', CHR ''z''),
             (CHR ''A'', CHR ''Z''), (CHR ''0'', CHR ''9'')] c = is_name_char c"
  by (auto simp: in_class_def in_range_def is_name_char_def is_letter_def is_digit_def)

text \<open>The compiled pattern accepts exactly the names the pattern describes.\<close>

lemma MatchString_regex_iff: "MatchString regex name = valid_name name"
proof (cases name)
  case Nil
  then show ?thesis
    by (simp add: MatchString_def valid_name_def regex_def)
next
  case (Cons c cs)
  have "whole_match (deriv c regex) cs = (is_letter c \<and> list_all is_name_char cs)"
    by (simp add: regex_def in_class_letters whole_match_Cat_Eps whole_match_Cat_Fail
        whole_match_Star_class in_class_name_chars list_all_iff)
  with Cons show ?thesis
    by (simp add: MatchString_def valid_name_def)
qed

lemma TrimPrefix_prefixed: "TrimPrefix (p @ s) p = s"
  by (simp add: TrimPrefix_def HasPrefix_def)

lemma Atoi_empty: "Atoi [] = None"
  by (simp add: Atoi_def)

lemma Atoi_examples:
  "Atoi ''abc'' = None"
  "Atoi ''3'' = Some 3"
  "Atoi ''-12'' = Some (- 12)"
  "Atoi ''+007'' = Some 7"
  "Atoi ''3 '' = None"
  "Atoi ''-'' = None"
  by (simp_all add: Atoi_def is_digit_def digits_val_def digit_val_def IntSize_def)

lemma Itoa_examples:
  "Itoa 3 = ''3''"
  "Itoa 0 = ''0''"
  "Itoa (- 2) = ''-2''"
  "Itoa 120 = ''120''"
  by (simp_all add: Itoa_def decimal.simps digit_char_def)

lemma Atoi_rejects_non_literal: "\<not> decimal_literal s \<Longrightarrow> Atoi s = None"
  by (cases s) (auto simp add: decimal_literal_def Atoi_def)

lemma digit_cases:
  assumes "d < (10::nat)"
  shows "d = 0 \<or> d = 1 \<or> d = 2 \<or> d = 3 \<or> d = 4 \<or> d = 5 \<or> d = 6 \<or> d = 7 \<or> d = 8 \<or> d = 9"
  using assms by arith

lemma digit_char_props:
  assumes "d < 10"
  shows "is_digit (digit_char d)" and "digit_val (digit_char d) = d"
    and "digit_char d \<noteq> CHR ''-''" and "digit_char d \<noteq> CHR ''+''"
  using digit_cases [OF assms]
  by (auto simp add: digit_char_def is_digit_def digit_val_def)

lemma digits_val_snoc: "digits_val (ds @ [c]) = digits_val ds * 10 + digit_val c"
  by (simp add: digits_val_def)

lemma decimal_props:
  "decimal n \<noteq> [] \<and> list_all is_digit (decimal n) \<and> digits_val (decimal n) = n
   \<and> hd (decimal n) \<noteq> CHR ''-'' \<and> hd (decimal n) \<noteq> CHR ''+''"
proof (induction n rule: decimal.induct)
  case (1 n)
  show ?case
  proof (cases "n < 10")
    case True
    then show ?thesis
      by (subst (1 2 3 4 5) decimal.simps) (simp add: digit_char_props digits_val_def)
  next
    case False
    have m: "n mod 10 < 10" by simp
    from False 1 show ?thesis
      by (subst (1 2 3 4 5) decimal.simps)
        (simp add: digit_char_props [OF m] digits_val_snoc)
  qed
qed

text \<open>
  The instance count survives the round trip through the stack parameter: what \<open>Itoa\<close>
  writes, \<open>Atoi\<close> reads back, for every value of a 64-bit \<^verbatim>\<open>int\<close>.
\<close>

lemma Atoi_Itoa:
  assumes "- (2 ^ 63) \<le> n" and "n < 2 ^ 63"
  shows "Atoi (Itoa n) = Some n"
proof (cases "n < 0")
  case True
  with assms decimal_props [of "nat (- n)"] show ?thesis
    by (simp add: Atoi_def Itoa_def IntSize_def Let_def)
next
  case False
  with assms decimal_props [of "nat n"] show ?thesis
    by (auto simp add: Atoi_def Itoa_def IntSize_def Let_def)
qed

section \<open>Facts about the workflows\<close>

lemma Client_CreateKey_provider_error:
  "CreateKeyPair (EC2 cl) kname = (out, Some e) \<Longrightarrow> Client_CreateKey cl kname = ([], Some e)"
  by (simp add: Client_CreateKey_def)

lemma calls_invoke [simp]: "calls (invoke k w) = calls w @ [k]"
  by (simp add: invoke_def)

lemma calls_Println [simp]: "calls (Println i f a w) = calls w"
  by (simp add: Println_def)

lemma CreateClassroom_rejects:
  "\<not> MatchString regex name \<Longrightarrow>
   CreateClassroom c name number w =
     (Some ''invalid name: must match pattern ^[a-zA-Z][-a-zA-Z0-9]*$'', w)"
  by (simp add: CreateClassroom_def requiredPattern_def)

lemma DestroyClassroom_starts:
  "\<exists>rest. calls (snd (DestroyClassroom c name w)) = calls w @ Call_DeleteStack (prefix name) # rest"
  by (simp add: DestroyClassroom_def Let_def invoke_def Println_def split: option.split)

lemma DescribeClassroom_starts:
  "\<exists>rest. calls (snd (DescribeClassroom enc c name format w))
           = calls w @ Call_DescribeStack (prefix name) # rest"
  by (simp add: DescribeClassroom_def Let_def invoke_def split: option.split prod.split)

text \<open>
  The calls a workflow can add, and that it returns no error only when it made all of
  them.
\<close>

lemma CreateClassroom_shape:
  "(case CreateClassroom c name number w of (e, w') \<Rightarrow>
     (e \<noteq> None \<and> new_calls w w' = [])
   \<or> (e \<noteq> None \<and> new_calls w w' = [Call_GetLatestAMIs (VagrantBoxName c)])
   \<or> (e \<noteq> None
      \<and> new_calls w w' = [Call_GetLatestAMIs (VagrantBoxName c), Call_CreateKey (prefix name)])
   \<or> (\<exists>key. e \<noteq> None
      \<and> new_calls w w'
          = [Call_GetLatestAMIs (VagrantBoxName c), Call_CreateKey (prefix name),
             Call_URLForObject (''keys/'' @ prefix name),
             Call_StoreObject (''keys/'' @ prefix name) key
               ''bosh101_ssh_key.pem'' ''application/x-pem-file''])
   \<or> (\<exists>key ami. new_calls w w'
          = [Call_GetLatestAMIs (VagrantBoxName c), Call_CreateKey (prefix name),
             Call_URLForObject (''keys/'' @ prefix name),
             Call_StoreObject (''keys/'' @ prefix name) key
               ''bosh101_ssh_key.pem'' ''application/x-pem-file'',
             Call_CreateStack (prefix name) (Template c)
               [''AMI'' \<mapsto> ami, ''KeyName'' \<mapsto> prefix name,
                ''InstanceCount'' \<mapsto> Itoa number]]))"
  apply (simp add: CreateClassroom_def Let_def new_calls_def
      split: option.split prod.split)
  apply blast
  done

lemma DestroyClassroom_shape:
  "(case DestroyClassroom c name w of (e, w') \<Rightarrow>
     (e \<noteq> None \<and> new_calls w w' = [Call_DeleteStack (prefix name)])
   \<or> (e \<noteq> None
      \<and> new_calls w w' = [Call_DeleteStack (prefix name), Call_DeleteKey (prefix name)])
   \<or> new_calls w w'
          = [Call_DeleteStack (prefix name), Call_DeleteKey (prefix name),
             Call_DeleteObject (''keys/'' @ prefix name)])"
  by (simp add: DestroyClassroom_def Let_def new_calls_def split: option.split)

lemma DescribeClassroom_shape:
  "(case DescribeClassroom enc c name format w of ((out, e), w') \<Rightarrow>
     (e \<noteq> None \<and> new_calls w w' = [Call_DescribeStack (prefix name)])
   \<or> (e \<noteq> None
      \<and> new_calls w w'
          = [Call_DescribeStack (prefix name), Call_URLForObject (''keys/'' @ prefix name)])
   \<or> (\<exists>stackID. new_calls w w'
          = [Call_DescribeStack (prefix name), Call_URLForObject (''keys/'' @ prefix name),
             Call_GetHostsFromStackID stackID]))"
  by (simp add: DescribeClassroom_def Let_def new_calls_def split: option.split prod.split)

text \<open>What the fake returns, and that the names used in the concrete runs are as expected.\<close>

lemma fake_simps:
  "AtlasClient fakeController = fakeAtlas"
  "AWSClient fakeController = fakeAWS"
  "VagrantBoxName fakeController = ''box''"
  "Region fakeController = ''us-east-1''"
  "Template fakeController = ''template''"
  "Green (Log fakeController) f args = concat args"
  "GetLatestAMIs fakeAtlas h box = ([''us-east-1'' \<mapsto> ''ami-1234''], None)"
  "CreateKey fakeAWS h n = (''PEM'', None)"
  "DeleteKey fakeAWS h n = None"
  "ListKeys fakeAWS h p = (Some [''classroom-a'', ''classroom-b''], None)"
  "StoreObject fakeAWS h n b f t = None"
  "DeleteObject fakeAWS h n = None"
  "URLForObject fakeAWS h n = ''https://s3/'' @ n"
  "CreateStack fakeAWS h n t ps = (''stack-1'', None)"
  "DeleteStack fakeAWS h n = None"
  "DescribeStack fakeAWS h n = (''CREATE_COMPLETE'', ''stack-1'', [''InstanceCount'' \<mapsto> ''3''], None)"
  "GetHostsFromStackID fakeAWS h i = (Some [(''vm-0'', ''10.0.0.1'')], None)"
  "calls w_init = []"
  "printed w_init = []"
  by (simp_all add: fakeController_def fakeAtlas_def fakeAWS_def w_init_def)

lemma example_names:
  "MatchString regex ''demo''"
  "\<not> MatchString regex ''1bad''"
  "\<not> MatchString regex ''bad name''"
  "\<not> MatchString regex []"
  by (simp_all add: MatchString_regex_iff valid_name_def is_letter_def is_name_char_def
      is_digit_def)

section \<open>The claims\<close>

text \<open>
  C1. For every environment name that does not match the pattern
  \<^verbatim>\<open>^[a-zA-Z][-a-zA-Z0-9]*$\<close> and every instance count, \<open>CreateClassroom\<close> returns the
  validation error that quotes the pattern, and leaves the world as it was: no method
  of \<^verbatim>\<open>AtlasClient\<close> or \<^verbatim>\<open>AWSClient\<close> is called and nothing is printed.
\<close>

theorem C1_create_rejects_invalid_name:
  assumes "\<not> MatchString regex name"
  shows "CreateClassroom c name number w =
           (Some ''invalid name: must match pattern ^[a-zA-Z][-a-zA-Z0-9]*$'', w)"
  using assms by (rule CreateClassroom_rejects)

theorem C1_witness:
  "\<not> MatchString regex ''1bad'' \<and> \<not> MatchString regex ''bad name'' \<and> \<not> MatchString regex []
   \<and> CreateClassroom fakeController ''1bad'' 3 w_init =
        (Some ''invalid name: must match pattern ^[a-zA-Z][-a-zA-Z0-9]*$'', w_init)
   \<and> CreateClassroom fakeController ''bad name'' 0 w_init =
        (Some ''invalid name: must match pattern ^[a-zA-Z][-a-zA-Z0-9]*$'', w_init)
   \<and> CreateClassroom fakeController [] (- 1) w_init =
        (Some ''invalid name: must match pattern ^[a-zA-Z][-a-zA-Z0-9]*$'', w_init)"
  using C1_create_rejects_invalid_name [of "''1bad''" fakeController 3 w_init]
    C1_create_rejects_invalid_name [of "''bad name''" fakeController 0 w_init]
    C1_create_rejects_invalid_name [of "[]" fakeController "- 1" w_init]
  by (simp add: example_names)

text \<open>
  C2. For every environment name, \<open>DestroyClassroom\<close> calls \<open>DeleteStack\<close> on
  \<^verbatim>\<open>"classroom-" + name\<close>, then \<open>DeleteKey\<close> on the same name, then \<open>DeleteObject\<close> on
  \<^verbatim>\<open>"keys/classroom-" + name\<close>, in that order. When a step returns an error, that error
  is the result and no later step is called; when the first two succeed the result is
  what \<open>DeleteObject\<close> returns. No other call is made.
\<close>

theorem C2_destroy_order_and_short_circuit:
  "(let pn = ''classroom-'' @ name;
        r = DestroyClassroom c name w;
        h1 = calls w @ [Call_DeleteStack pn];
        h2 = h1 @ [Call_DeleteKey pn];
        h3 = h2 @ [Call_DeleteObject (''keys/'' @ pn)]
    in case DeleteStack (AWSClient c) (calls w) pn of
         Some e \<Rightarrow> fst r = Some e \<and> calls (snd r) = h1
       | None \<Rightarrow>
          (case DeleteKey (AWSClient c) h1 pn of
             Some e \<Rightarrow> fst r = Some e \<and> calls (snd r) = h2
           | None \<Rightarrow>
               fst r = DeleteObject (AWSClient c) h2 (''keys/'' @ pn) \<and> calls (snd r) = h3))"
  by (simp add: DestroyClassroom_def prefix_def Let_def split: option.splits)

theorem C2_witness:
  "fst (DestroyClassroom fakeController ''demo'' w_init) = None
   \<and> calls (snd (DestroyClassroom fakeController ''demo'' w_init))
       = [Call_DeleteStack ''classroom-demo'', Call_DeleteKey ''classroom-demo'',
          Call_DeleteObject ''keys/classroom-demo'']
   \<and> fst (DestroyClassroom
             (fakeController\<lparr>AWSClient := fakeAWS\<lparr>DeleteKey := (\<lambda>h n. Some ''no such key'')\<rparr>\<rparr>)
             ''demo'' w_init) = Some ''no such key''
   \<and> calls (snd (DestroyClassroom
             (fakeController\<lparr>AWSClient := fakeAWS\<lparr>DeleteKey := (\<lambda>h n. Some ''no such key'')\<rparr>\<rparr>)
             ''demo'' w_init))
       = [Call_DeleteStack ''classroom-demo'', Call_DeleteKey ''classroom-demo'']
   \<and> fst (DestroyClassroom
             (fakeController\<lparr>AWSClient := fakeAWS\<lparr>DeleteStack := (\<lambda>h n. Some ''no such stack'')\<rparr>\<rparr>)
             ''demo'' w_init) = Some ''no such stack''
   \<and> calls (snd (DestroyClassroom
             (fakeController\<lparr>AWSClient := fakeAWS\<lparr>DeleteStack := (\<lambda>h n. Some ''no such stack'')\<rparr>\<rparr>)
             ''demo'' w_init))
       = [Call_DeleteStack ''classroom-demo'']"
  using C2_destroy_order_and_short_circuit [of "''demo''" fakeController w_init]
    C2_destroy_order_and_short_circuit [of "''demo''"
      "fakeController\<lparr>AWSClient := fakeAWS\<lparr>DeleteKey := (\<lambda>h n. Some ''no such key'')\<rparr>\<rparr>" w_init]
    C2_destroy_order_and_short_circuit [of "''demo''"
      "fakeController\<lparr>AWSClient := fakeAWS\<lparr>DeleteStack := (\<lambda>h n. Some ''no such stack'')\<rparr>\<rparr>" w_init]
  by (simp add: fake_simps Let_def)

text \<open>
  C3. For every valid environment name, when \<open>GetLatestAMIs\<close> succeeds and the map it
  returns has no entry for the configured region, \<open>CreateClassroom\<close> returns an error
  (naming the region) and the only call it has made is \<open>GetLatestAMIs\<close>: no
  \<open>CreateKey\<close>, \<open>StoreObject\<close> or \<open>CreateStack\<close>.
\<close>

theorem C3_create_aborts_without_region:
  assumes "MatchString regex name"
    and "GetLatestAMIs (AtlasClient c) (calls w) (VagrantBoxName c) = (amiMap, None)"
    and "amiMap (Region c) = None"
  shows "fst (CreateClassroom c name number w)
           = Some (''Couldn't find AMI in region '' @ Region c)
       \<and> calls (snd (CreateClassroom c name number w))
           = calls w @ [Call_GetLatestAMIs (VagrantBoxName c)]"
  using assms by (simp add: CreateClassroom_def Let_def)

theorem C3_witness:
  "MatchString regex ''demo''
   \<and> GetLatestAMIs (AtlasClient (fakeController\<lparr>Region := ''mars-1''\<rparr>)) (calls w_init)
        (VagrantBoxName (fakeController\<lparr>Region := ''mars-1''\<rparr>))
       = ([''us-east-1'' \<mapsto> ''ami-1234''], None)
   \<and> [''us-east-1'' \<mapsto> ''ami-1234''] (Region (fakeController\<lparr>Region := ''mars-1''\<rparr>)) = None
   \<and> fst (CreateClassroom (fakeController\<lparr>Region := ''mars-1''\<rparr>) ''demo'' 3 w_init)
       = Some ''Couldn't find AMI in region mars-1''
   \<and> calls (snd (CreateClassroom (fakeController\<lparr>Region := ''mars-1''\<rparr>) ''demo'' 3 w_init))
       = [Call_GetLatestAMIs ''box'']"
proof -
  let ?c = "fakeController\<lparr>Region := ''mars-1''\<rparr>"
  have h1: "MatchString regex ''demo''"
    by (simp add: example_names)
  have h2: "GetLatestAMIs (AtlasClient ?c) (calls w_init) (VagrantBoxName ?c)
              = ([''us-east-1'' \<mapsto> ''ami-1234''], None)"
    by (simp add: fake_simps)
  have h3: "[''us-east-1'' \<mapsto> ''ami-1234''] (Region ?c) = None"
    by simp
  show ?thesis
    using h1 h2 h3 C3_create_aborts_without_region [OF h1 h2 h3, of 3]
    by (simp add: fake_simps)
qed

text \<open>
  C4. When the provider answers \<open>CreateKeyPair\<close> without an error, \<open>CreateKey\<close> of the
  client returns an error (and an empty string) whenever the answer has no key name, a
  key name other than the requested one, or no or empty key material; otherwise it
  returns the key material and no error. And when \<open>CreateKey\<close> fails during
  \<open>CreateClassroom\<close>, the workflow returns that error and has called \<open>GetLatestAMIs\<close>
  and \<open>CreateKey\<close> only: neither \<open>StoreObject\<close> nor \<open>CreateStack\<close>.
\<close>

theorem C4_create_key_validated:
  "(CreateKeyPair (EC2 cl) kname = (out, None) \<longrightarrow>
      (if KeyName out = None \<or> KeyName out \<noteq> Some kname
          \<or> KeyMaterial out = None \<or> KeyMaterial out = Some []
       then fst (Client_CreateKey cl kname) = [] \<and> snd (Client_CreateKey cl kname) \<noteq> None
       else Client_CreateKey cl kname = (the (KeyMaterial out), None)))
   \<and> (MatchString regex name
       \<and> GetLatestAMIs (AtlasClient c) (calls w) (VagrantBoxName c) = (amiMap, None)
       \<and> amiMap (Region c) = Some ami
       \<and> CreateKey (AWSClient c) (calls w @ [Call_GetLatestAMIs (VagrantBoxName c)]) (prefix name)
           = (key, Some e) \<longrightarrow>
      fst (CreateClassroom c name number w) = Some e
      \<and> calls (snd (CreateClassroom c name number w))
          = calls w @ [Call_GetLatestAMIs (VagrantBoxName c), Call_CreateKey (prefix name)])"
  by (auto simp add: Client_CreateKey_def CreateClassroom_def Let_def split: option.splits)

theorem C4_witness:
  "CreateKeyPair
     (EC2 \<lparr>EC2 = \<lparr>CreateKeyPair = (\<lambda>n. (\<lparr>KeyName = Some ''other'', KeyMaterial = Some ''PEM''\<rparr>, None)),
                  DeleteKeyPair = (\<lambda>n. None)\<rparr>\<rparr>) ''classroom-demo''
     = (\<lparr>KeyName = Some ''other'', KeyMaterial = Some ''PEM''\<rparr>, None)
   \<and> Client_CreateKey
        \<lparr>EC2 = \<lparr>CreateKeyPair = (\<lambda>n. (\<lparr>KeyName = Some ''other'', KeyMaterial = Some ''PEM''\<rparr>, None)),
                 DeleteKeyPair = (\<lambda>n. None)\<rparr>\<rparr> ''classroom-demo''
       = ([], Some (''tried to create key named '' @ [CHR 0x27] @ ''classroom-demo'' @ [CHR 0x27]
                    @ '' but generated key was called '' @ [CHR 0x27] @ ''other'' @ [CHR 0x27]))
   \<and> MatchString regex ''demo''
   \<and> fst (CreateClassroom
             (fakeController\<lparr>AWSClient := fakeAWS\<lparr>CreateKey := (\<lambda>h. Client_CreateKey
                \<lparr>EC2 = \<lparr>CreateKeyPair = (\<lambda>n. (\<lparr>KeyName = Some ''other'', KeyMaterial = Some ''PEM''\<rparr>, None)),
                         DeleteKeyPair = (\<lambda>n. None)\<rparr>\<rparr>)\<rparr>\<rparr>)
             ''demo'' 3 w_init)
       = Some (''tried to create key named '' @ [CHR 0x27] @ ''classroom-demo'' @ [CHR 0x27]
               @ '' but generated key was called '' @ [CHR 0x27] @ ''other'' @ [CHR 0x27])
   \<and> calls (snd (CreateClassroom
             (fakeController\<lparr>AWSClient := fakeAWS\<lparr>CreateKey := (\<lambda>h. Client_CreateKey
                \<lparr>EC2 = \<lparr>CreateKeyPair = (\<lambda>n. (\<lparr>KeyName = Some ''other'', KeyMaterial = Some ''PEM''\<rparr>, None)),
                         DeleteKeyPair = (\<lambda>n. None)\<rparr>\<rparr>)\<rparr>\<rparr>)
             ''demo'' 3 w_init))
       = [Call_GetLatestAMIs ''box'', Call_CreateKey ''classroom-demo'']"
proof -
  let ?out = "\<lparr>KeyName = Some ''other'', KeyMaterial = Some ''PEM''\<rparr>"
  let ?cl = "\<lparr>EC2 = \<lparr>CreateKeyPair = (\<lambda>n. (?out, None)), DeleteKeyPair = (\<lambda>n. None)\<rparr>\<rparr>"
  let ?c = "fakeController\<lparr>AWSClient := fakeAWS\<lparr>CreateKey := (\<lambda>h. Client_CreateKey ?cl)\<rparr>\<rparr>"
  let ?e = "''tried to create key named '' @ [CHR 0x27] @ ''classroom-demo'' @ [CHR 0x27]
            @ '' but generated key was called '' @ [CHR 0x27] @ ''other'' @ [CHR 0x27]"
  have k: "Client_CreateKey ?cl ''classroom-demo'' = ([], Some ?e)"
    by (simp add: Client_CreateKey_def)
  have h1: "MatchString regex ''demo''"
    by (simp add: example_names)
  have h2: "GetLatestAMIs (AtlasClient ?c) (calls w_init) (VagrantBoxName ?c)
              = ([''us-east-1'' \<mapsto> ''ami-1234''], None)"
    by (simp add: fake_simps)
  have h3: "[''us-east-1'' \<mapsto> ''ami-1234''] (Region ?c) = Some ''ami-1234''"
    by (simp add: fake_simps)
  have h4: "CreateKey (AWSClient ?c) (calls w_init @ [Call_GetLatestAMIs (VagrantBoxName ?c)])
              (prefix ''demo'') = ([], Some ?e)"
    using k by (simp add: prefix_def)
  show ?thesis
    using k h1 h2 h3 h4
      C4_create_key_validated [of ?cl "''classroom-demo''" ?out "''demo''" ?c w_init
        "[''us-east-1'' \<mapsto> ''ami-1234'']" "''ami-1234''" "[]" ?e 3]
    by (simp add: fake_simps prefix_def)
qed

text \<open>
  C5. For every name and format, when \<open>DescribeStack\<close> succeeds and the parameters
  it returns have no \<^verbatim>\<open>InstanceCount\<close>, or one that \<open>Atoi\<close> does not accept,
  \<open>DescribeClassroom\<close> returns the empty string and the error
  \<^verbatim>\<open>malformed CloudFormation stack: missing or invalid parameter 'InstanceCount'\<close>. It
  has called \<open>DescribeStack\<close> and \<open>URLForObject\<close> only, and no number is defaulted.
\<close>

theorem C5_describe_malformed_instance_count:
  assumes "DescribeStack (AWSClient c) (calls w) (prefix name) = (status, stackID, parameters, None)"
    and "parameters ''InstanceCount'' = None
         \<or> (\<exists>v. parameters ''InstanceCount'' = Some v \<and> Atoi v = None)"
  shows "fst (DescribeClassroom enc c name format w)
           = ([], Some (''malformed CloudFormation stack: missing or invalid parameter ''
                        @ [CHR 0x27] @ ''InstanceCount'' @ [CHR 0x27]))
       \<and> calls (snd (DescribeClassroom enc c name format w))
           = calls w @ [Call_DescribeStack (prefix name),
                        Call_URLForObject (''keys/'' @ prefix name)]"
  using assms
  by (auto simp add: DescribeClassroom_def Let_def Atoi_empty malformed_error_def)

theorem C5_witness:
  "DescribeStack
     (AWSClient (fakeController\<lparr>AWSClient := fakeAWS\<lparr>DescribeStack :=
        (\<lambda>h n. (''CREATE_COMPLETE'', ''stack-1'', [''InstanceCount'' \<mapsto> ''abc''], None))\<rparr>\<rparr>))
     (calls w_init) (prefix ''demo'')
     = (''CREATE_COMPLETE'', ''stack-1'', [''InstanceCount'' \<mapsto> ''abc''], None)
   \<and> [''InstanceCount'' \<mapsto> ''abc''] ''InstanceCount'' = Some ''abc'' \<and> Atoi ''abc'' = None
   \<and> fst (DescribeClassroom quoted
             (fakeController\<lparr>AWSClient := fakeAWS\<lparr>DescribeStack :=
                (\<lambda>h n. (''CREATE_COMPLETE'', ''stack-1'', [''InstanceCount'' \<mapsto> ''abc''], None))\<rparr>\<rparr>)
             ''demo'' ''json'' w_init)
       = ([], Some (''malformed CloudFormation stack: missing or invalid parameter ''
                    @ [CHR 0x27] @ ''InstanceCount'' @ [CHR 0x27]))
   \<and> calls (snd (DescribeClassroom quoted
             (fakeController\<lparr>AWSClient := fakeAWS\<lparr>DescribeStack :=
                (\<lambda>h n. (''CREATE_COMPLETE'', ''stack-1'', [''InstanceCount'' \<mapsto> ''abc''], None))\<rparr>\<rparr>)
             ''demo'' ''json'' w_init))
       = [Call_DescribeStack ''classroom-demo'', Call_URLForObject ''keys/classroom-demo'']
   \<and> fst (DescribeClassroom quoted
             (fakeController\<lparr>AWSClient := fakeAWS\<lparr>DescribeStack :=
                (\<lambda>h n. (''CREATE_COMPLETE'', ''stack-1'', Map.empty, None))\<rparr>\<rparr>)
             ''demo'' ''plain'' w_init)
       = ([], Some (''malformed CloudFormation stack: missing or invalid parameter ''
                    @ [CHR 0x27] @ ''InstanceCount'' @ [CHR 0x27]))"
proof -
  let ?c = "fakeController\<lparr>AWSClient := fakeAWS\<lparr>DescribeStack :=
        (\<lambda>h n. (''CREATE_COMPLETE'', ''stack-1'', [''InstanceCount'' \<mapsto> ''abc''], None))\<rparr>\<rparr>"
  let ?d = "fakeController\<lparr>AWSClient := fakeAWS\<lparr>DescribeStack :=
        (\<lambda>h n. (''CREATE_COMPLETE'', ''stack-1'', Map.empty, None))\<rparr>\<rparr>"
  have h1: "DescribeStack (AWSClient ?c) (calls w_init) (prefix ''demo'')
              = (''CREATE_COMPLETE'', ''stack-1'', [''InstanceCount'' \<mapsto> ''abc''], None)"
    by simp
  have h2: "[''InstanceCount'' \<mapsto> ''abc''] ''InstanceCount'' = None
            \<or> (\<exists>v. [''InstanceCount'' \<mapsto> ''abc''] ''InstanceCount'' = Some v \<and> Atoi v = None)"
    by (simp add: Atoi_examples)
  have g1: "DescribeStack (AWSClient ?d) (calls w_init) (prefix ''demo'')
              = (''CREATE_COMPLETE'', ''stack-1'', Map.empty, None)"
    by simp
  have g2: "(Map.empty :: string \<rightharpoonup> string) ''InstanceCount'' = None
            \<or> (\<exists>v. (Map.empty :: string \<rightharpoonup> string) ''InstanceCount'' = Some v
                   \<and> Atoi v = None)"
    by simp
  show ?thesis
    using h1 C5_describe_malformed_instance_count [OF h1 h2, of quoted "''json''"]
      C5_describe_malformed_instance_count [OF g1 g2, of quoted "''plain''"]
    by (simp add: fake_simps prefix_def Atoi_examples)
qed

text \<open>
  C6, as amended. When \<open>ListKeys\<close> succeeds, \<open>ListClassrooms\<close> strips the prefix
  \<^verbatim>\<open>classroom-\<close> from each name. With format \<^verbatim>\<open>plain\<close> it returns the stripped names
  joined by newlines. With format \<^verbatim>\<open>json\<close> it returns the indented JSON array of the
  stripped names when the slice is not \<^verbatim>\<open>nil\<close> (\<^verbatim>\<open>[]\<close> when it is empty), and
  \<^verbatim>\<open>null\<close> when it is \<^verbatim>\<open>nil\<close>. With any other format it returns an error.
\<close>

theorem C6_list_formats:
  assumes "ListKeys (AWSClient c) (calls w) ''classroom-'' = (keys, None)"
  shows "fst (ListClassrooms enc c format w) =
     (if format = ''json''
      then (case keys of
              None \<Rightarrow> ''null''
            | Some ks \<Rightarrow>
                if ks = [] then ''[]''
                else ''['' @ nl @ indent
                     @ Join (map (\<lambda>k. enc (TrimPrefix k ''classroom-'')) ks) ('','' @ nl @ indent)
                     @ nl @ '']'', None)
      else if format = ''plain''
      then (Join (map (\<lambda>k. TrimPrefix k ''classroom-'')
                    (case keys of None \<Rightarrow> [] | Some ks \<Rightarrow> ks)) nl, None)
      else ([], Some (''expected format to be either '' @ [CHR 0x27] @ ''json'' @ [CHR 0x27]
                      @ '' or '' @ [CHR 0x27] @ ''plain'' @ [CHR 0x27])))"
  using assms
  by (auto simp add: ListClassrooms_def Let_def MarshalIndent_strings_def comp_def format_error_def
      split: option.splits list.splits)

theorem C6_witness:
  "ListKeys (AWSClient fakeController) (calls w_init) ''classroom-''
     = (Some [''classroom-a'', ''classroom-b''], None)
   \<and> fst (ListClassrooms quoted fakeController ''plain'' w_init) = (''a'' @ nl @ ''b'', None)
   \<and> fst (ListClassrooms quoted fakeController ''json'' w_init)
       = (''['' @ nl @ indent @ quoted ''a'' @ '','' @ nl @ indent @ quoted ''b'' @ nl @ '']'', None)
   \<and> snd (fst (ListClassrooms quoted fakeController ''xml'' w_init)) \<noteq> None"
proof -
  have h: "ListKeys (AWSClient fakeController) (calls w_init) ''classroom-''
             = (Some [''classroom-a'', ''classroom-b''], None)"
    by (simp add: fake_simps)
  show ?thesis
    using h C6_list_formats [OF h, of quoted "''plain''"]
      C6_list_formats [OF h, of quoted "''json''"]
      C6_list_formats [OF h, of quoted "''xml''"]
    by (simp add: TrimPrefix_def HasPrefix_def)
qed

text \<open>
  The claim as it was stated fails where \<open>ListKeys\<close> returns the \<^verbatim>\<open>nil\<close> slice: with
  format \<^verbatim>\<open>json\<close> the output is \<^verbatim>\<open>null\<close>, which is not a JSON array.
\<close>

theorem C6_counterexample:
  "fst (ListClassrooms quoted nilKeysController ''json'' w_init) = (''null'', None)"
  by (simp add: ListClassrooms_def nilKeysController_def Let_def MarshalIndent_strings_def)

text \<open>
  C7. When \<open>DescribeStack\<close> succeeds, \<^verbatim>\<open>InstanceCount\<close> parses as the integer \<open>n\<close> and
  \<open>GetHostsFromStackID\<close> succeeds, \<open>DescribeClassroom\<close> renders the four fields
  \<^verbatim>\<open>status\<close> (the provider's string as it is), \<^verbatim>\<open>number\<close> (\<open>n\<close>), \<^verbatim>\<open>ssh_key\<close> (the URL
  of the object \<^verbatim>\<open>keys/classroom-\<close>\<open>name\<close>) and \<^verbatim>\<open>hosts\<close> (the hosts of the stack id):
  for \<^verbatim>\<open>json\<close> as an indented object with these keys in this order, for \<^verbatim>\<open>plain\<close> as
  the four labelled lines in this order followed by one line per host, label, tab,
  address; any other format is an error.
\<close>

theorem C7_describe_renders_record:
  assumes "DescribeStack (AWSClient c) (calls w) (prefix name) = (status, stackID, parameters, None)"
    and "parameters ''InstanceCount'' = Some v"
    and "Atoi v = Some n"
    and "GetHostsFromStackID (AWSClient c)
           (calls w @ [Call_DescribeStack (prefix name), Call_URLForObject (''keys/'' @ prefix name)])
           stackID = (hosts, None)"
  shows "fst (DescribeClassroom enc c name format w) =
     (if format = ''json''
      then (''{'' @ nl
            @ indent @ quoted ''status'' @ '': '' @ enc status @ '','' @ nl
            @ indent @ quoted ''number'' @ '': '' @ Itoa n @ '','' @ nl
            @ indent @ quoted ''ssh_key'' @ '': ''
              @ enc (URLForObject (AWSClient c) (calls w @ [Call_DescribeStack (prefix name)])
                       (''keys/'' @ ''classroom-'' @ name)) @ '','' @ nl
            @ indent @ quoted ''hosts'' @ '': '' @ MarshalIndent_map enc hosts @ nl
            @ ''}'', None)
      else if format = ''plain''
      then (''status: '' @ status @ nl
            @ ''number: '' @ Itoa n @ nl
            @ ''ssh_key: ''
              @ URLForObject (AWSClient c) (calls w @ [Call_DescribeStack (prefix name)])
                  (''keys/'' @ ''classroom-'' @ name) @ nl
            @ ''hosts:'' @ nl
            @ Join (map (\<lambda>kv. fst kv @ tab @ snd kv)
                      (case hosts of None \<Rightarrow> [] | Some kvs \<Rightarrow> kvs)) nl, None)
      else ([], Some (''expected format to be either '' @ [CHR 0x27] @ ''json'' @ [CHR 0x27]
                      @ '' or '' @ [CHR 0x27] @ ''plain'' @ [CHR 0x27])))"
  using assms
  by (simp add: DescribeClassroom_def Let_def MarshalIndent_description_def format_error_def
      prefix_def)

theorem C7_witness:
  "DescribeStack (AWSClient twoHostsController) (calls w_init) (prefix ''demo'')
     = (''CREATE_COMPLETE'', ''stack-1'', [''InstanceCount'' \<mapsto> ''3''], None)
   \<and> [''InstanceCount'' \<mapsto> ''3''] ''InstanceCount'' = Some ''3''
   \<and> Atoi ''3'' = Some 3
   \<and> GetHostsFromStackID (AWSClient twoHostsController)
        (calls w_init @ [Call_DescribeStack (prefix ''demo''),
                         Call_URLForObject (''keys/'' @ prefix ''demo'')]) ''stack-1''
       = (Some [(''vm-1'', ''10.0.0.2''), (''vm-0'', ''10.0.0.1'')], None)
   \<and> fst (DescribeClassroom quoted twoHostsController ''demo'' ''json'' w_init)
       = (''{'' @ nl
          @ indent @ quoted ''status'' @ '': '' @ quoted ''CREATE_COMPLETE'' @ '','' @ nl
          @ indent @ quoted ''number'' @ '': 3,'' @ nl
          @ indent @ quoted ''ssh_key'' @ '': '' @ quoted ''https://s3/keys/classroom-demo''
            @ '','' @ nl
          @ indent @ quoted ''hosts'' @ '': {'' @ nl
          @ indent @ indent @ quoted ''vm-0'' @ '': '' @ quoted ''10.0.0.1'' @ '','' @ nl
          @ indent @ indent @ quoted ''vm-1'' @ '': '' @ quoted ''10.0.0.2'' @ nl
          @ indent @ ''}'' @ nl
          @ ''}'', None)
   \<and> fst (DescribeClassroom quoted twoHostsController ''demo'' ''plain'' w_init)
       = (''status: CREATE_COMPLETE'' @ nl
          @ ''number: 3'' @ nl
          @ ''ssh_key: https://s3/keys/classroom-demo'' @ nl
          @ ''hosts:'' @ nl
          @ ''vm-1'' @ tab @ ''10.0.0.2'' @ nl
          @ ''vm-0'' @ tab @ ''10.0.0.1'', None)
   \<and> snd (fst (DescribeClassroom quoted twoHostsController ''demo'' ''xml'' w_init)) \<noteq> None"
proof -
  let ?c = twoHostsController
  have c: "AWSClient ?c = fakeAWS\<lparr>GetHostsFromStackID :=
             (\<lambda>h i. (Some [(''vm-1'', ''10.0.0.2''), (''vm-0'', ''10.0.0.1'')], None))\<rparr>"
    by (simp add: twoHostsController_def)
  have h1: "DescribeStack (AWSClient ?c) (calls w_init) (prefix ''demo'')
              = (''CREATE_COMPLETE'', ''stack-1'', [''InstanceCount'' \<mapsto> ''3''], None)"
    by (simp add: c fake_simps)
  have h2: "[''InstanceCount'' \<mapsto> ''3''] ''InstanceCount'' = Some ''3''"
    by simp
  have h3: "Atoi ''3'' = Some 3"
    by (simp add: Atoi_examples)
  have h4: "GetHostsFromStackID (AWSClient ?c)
              (calls w_init @ [Call_DescribeStack (prefix ''demo''),
                               Call_URLForObject (''keys/'' @ prefix ''demo'')]) ''stack-1''
              = (Some [(''vm-1'', ''10.0.0.2''), (''vm-0'', ''10.0.0.1'')], None)"
    by (simp add: c)
  have u: "URLForObject (AWSClient ?c) h k = ''https://s3/'' @ k" for h k
    by (simp add: c fake_simps)
  have s: "sort_key fst [(''vm-1'', ''10.0.0.2''), (''vm-0'', ''10.0.0.1'')]
             = [(''vm-0'', ''10.0.0.1''), (''vm-1'', ''10.0.0.2'')]"
    by simp
  show ?thesis
    using h1 h2 h3 h4
      C7_describe_renders_record [OF h1 h2 h3 h4, of quoted "''json''"]
      C7_describe_renders_record [OF h1 h2 h3 h4, of quoted "''plain''"]
      C7_describe_renders_record [OF h1 h2 h3 h4, of quoted "''xml''"]
    by (simp add: u s MarshalIndent_map_def Itoa_examples)
qed

text \<open>
  C8, as amended. Of the workflows that take an environment name, only
  \<open>CreateClassroom\<close> checks it: a name that does not match the pattern makes it fail
  with the validation error before any call. \<open>DestroyClassroom\<close> and
  \<open>DescribeClassroom\<close> do not check the name: whatever it is, their first call is
  \<open>DeleteStack\<close>, respectively \<open>DescribeStack\<close>, on \<^verbatim>\<open>"classroom-" + name\<close>, and
  whether they fail is decided by the results of the adapter calls alone (for Describe
  also by the parse of \<^verbatim>\<open>InstanceCount\<close> and by the format). Destroy returns the first
  error among \<open>DeleteStack\<close>, \<open>DeleteKey\<close> and \<open>DeleteObject\<close> and no error when
  there is none; Describe returns the error of \<open>DescribeStack\<close>, else the
  malformed-stack error when the parse fails, else the wrapped error of
  \<open>GetHostsFromStackID\<close>, else the format error when the format is neither
  \<^verbatim>\<open>json\<close> nor \<^verbatim>\<open>plain\<close>, and no error otherwise.
\<close>

theorem C8_only_create_validates:
  "(\<not> MatchString regex name \<longrightarrow>
      CreateClassroom c name number w =
        (Some ''invalid name: must match pattern ^[a-zA-Z][-a-zA-Z0-9]*$'', w))
   \<and> take 1 (new_calls w (snd (DestroyClassroom c name w)))
       = [Call_DeleteStack (''classroom-'' @ name)]
   \<and> take 1 (new_calls w (snd (DescribeClassroom enc c name format w)))
       = [Call_DescribeStack (''classroom-'' @ name)]
   \<and> fst (DestroyClassroom c name w)
       = (case DeleteStack (AWSClient c) (calls w) (''classroom-'' @ name) of
            Some e \<Rightarrow> Some e
          | None \<Rightarrow>
             (case DeleteKey (AWSClient c)
                     (calls w @ [Call_DeleteStack (''classroom-'' @ name)])
                     (''classroom-'' @ name) of
                Some e \<Rightarrow> Some e
              | None \<Rightarrow>
                  DeleteObject (AWSClient c)
                    (calls w @ [Call_DeleteStack (''classroom-'' @ name),
                                Call_DeleteKey (''classroom-'' @ name)])
                    (''keys/'' @ ''classroom-'' @ name)))
   \<and> snd (fst (DescribeClassroom enc c name format w))
       = (case DescribeStack (AWSClient c) (calls w) (''classroom-'' @ name) of
            (status, stackID, parameters, err) \<Rightarrow>
              (case err of
                 Some e \<Rightarrow> Some e
               | None \<Rightarrow>
                  (case Atoi (case parameters ''InstanceCount'' of None \<Rightarrow> [] | Some v \<Rightarrow> v) of
                     None \<Rightarrow>
                       Some (''malformed CloudFormation stack: missing or invalid parameter ''
                             @ [CHR 0x27] @ ''InstanceCount'' @ [CHR 0x27])
                   | Some n \<Rightarrow>
                      (case snd (GetHostsFromStackID (AWSClient c)
                                   (calls w @ [Call_DescribeStack (''classroom-'' @ name),
                                               Call_URLForObject
                                                 (''keys/'' @ ''classroom-'' @ name)])
                                   stackID) of
                         Some e \<Rightarrow> Some (''error fetching hosts for stack: '' @ e)
                       | None \<Rightarrow>
                           if format = ''json'' \<or> format = ''plain'' then None
                           else Some (''expected format to be either '' @ [CHR 0x27] @ ''json''
                                      @ [CHR 0x27] @ '' or '' @ [CHR 0x27] @ ''plain''
                                      @ [CHR 0x27])))))"
proof (intro conjI impI)
  assume "\<not> MatchString regex name"
  then show "CreateClassroom c name number w =
        (Some ''invalid name: must match pattern ^[a-zA-Z][-a-zA-Z0-9]*$'', w)"
    by (rule CreateClassroom_rejects)
next
  obtain rest where
    "calls (snd (DestroyClassroom c name w)) = calls w @ Call_DeleteStack (prefix name) # rest"
    using DestroyClassroom_starts by blast
  then show "take 1 (new_calls w (snd (DestroyClassroom c name w)))
       = [Call_DeleteStack (''classroom-'' @ name)]"
    by (simp add: new_calls_def prefix_def)
next
  obtain rest where
    "calls (snd (DescribeClassroom enc c name format w))
       = calls w @ Call_DescribeStack (prefix name) # rest"
    using DescribeClassroom_starts by blast
  then show "take 1 (new_calls w (snd (DescribeClassroom enc c name format w)))
       = [Call_DescribeStack (''classroom-'' @ name)]"
    by (simp add: new_calls_def prefix_def)
next
  show "fst (DestroyClassroom c name w)
       = (case DeleteStack (AWSClient c) (calls w) (''classroom-'' @ name) of
            Some e \<Rightarrow> Some e
          | None \<Rightarrow>
             (case DeleteKey (AWSClient c)
                     (calls w @ [Call_DeleteStack (''classroom-'' @ name)])
                     (''classroom-'' @ name) of
                Some e \<Rightarrow> Some e
              | None \<Rightarrow>
                  DeleteObject (AWSClient c)
                    (calls w @ [Call_DeleteStack (''classroom-'' @ name),
                                Call_DeleteKey (''classroom-'' @ name)])
                    (''keys/'' @ ''classroom-'' @ name)))"
    by (simp add: DestroyClassroom_def prefix_def Let_def split: option.split)
next
  show "snd (fst (DescribeClassroom enc c name format w))
       = (case DescribeStack (AWSClient c) (calls w) (''classroom-'' @ name) of
            (status, stackID, parameters, err) \<Rightarrow>
              (case err of
                 Some e \<Rightarrow> Some e
               | None \<Rightarrow>
                  (case Atoi (case parameters ''InstanceCount'' of None \<Rightarrow> [] | Some v \<Rightarrow> v) of
                     None \<Rightarrow>
                       Some (''malformed CloudFormation stack: missing or invalid parameter ''
                             @ [CHR 0x27] @ ''InstanceCount'' @ [CHR 0x27])
                   | Some n \<Rightarrow>
                      (case snd (GetHostsFromStackID (AWSClient c)
                                   (calls w @ [Call_DescribeStack (''classroom-'' @ name),
                                               Call_URLForObject
                                                 (''keys/'' @ ''classroom-'' @ name)])
                                   stackID) of
                         Some e \<Rightarrow> Some (''error fetching hosts for stack: '' @ e)
                       | None \<Rightarrow>
                           if format = ''json'' \<or> format = ''plain'' then None
                           else Some (''expected format to be either '' @ [CHR 0x27] @ ''json''
                                      @ [CHR 0x27] @ '' or '' @ [CHR 0x27] @ ''plain''
                                      @ [CHR 0x27])))))"
    by (simp add: DescribeClassroom_def prefix_def Let_def malformed_error_def format_error_def
        Atoi_empty split: option.split prod.split)
qed

theorem C8_witness:
  "\<not> MatchString regex ''1bad''
   \<and> CreateClassroom fakeController ''1bad'' 3 w_init =
        (Some ''invalid name: must match pattern ^[a-zA-Z][-a-zA-Z0-9]*$'', w_init)
   \<and> take 1 (new_calls w_init (snd (DestroyClassroom fakeController ''1bad'' w_init)))
       = [Call_DeleteStack ''classroom-1bad'']
   \<and> take 1 (new_calls w_init
               (snd (DescribeClassroom quoted fakeController ''1bad'' ''json'' w_init)))
       = [Call_DescribeStack ''classroom-1bad'']
   \<and> fst (DestroyClassroom fakeController ''1bad'' w_init) = None
   \<and> snd (fst (DescribeClassroom quoted fakeController ''1bad'' ''json'' w_init)) = None"
  using C8_only_create_validates [of "''1bad''" fakeController 3 w_init quoted "''json''"]
  by (simp add: example_names fake_simps Atoi_examples)

text \<open>
  The claim as it was stated fails for \<open>DestroyClassroom\<close> and \<open>DescribeClassroom\<close>:
  given the name \<^verbatim>\<open>1bad\<close>, which does not match the pattern, both run to the end
  without an error and make all their calls.
\<close>

theorem C8_counterexample:
  "\<not> MatchString regex ''1bad''
   \<and> fst (DestroyClassroom fakeController ''1bad'' w_init) = None
   \<and> calls (snd (DestroyClassroom fakeController ''1bad'' w_init))
       = [Call_DeleteStack ''classroom-1bad'', Call_DeleteKey ''classroom-1bad'',
          Call_DeleteObject ''keys/classroom-1bad'']
   \<and> snd (fst (DescribeClassroom quoted fakeController ''1bad'' ''plain'' w_init)) = None
   \<and> calls (snd (DescribeClassroom quoted fakeController ''1bad'' ''plain'' w_init))
       = [Call_DescribeStack ''classroom-1bad'', Call_URLForObject ''keys/classroom-1bad'',
          Call_GetHostsFromStackID ''stack-1'']"
  by (simp add: example_names DestroyClassroom_def DescribeClassroom_def Let_def fake_simps
      prefix_def Atoi_examples)

text \<open>
  C9. For every environment name, the resource names that Create, Destroy and Describe
  hand to the provider all come from \<open>prefix name\<close>, which is \<^verbatim>\<open>"classroom-" + name\<close>:
  every call they make follows the scheme (keypair and stack called \<open>prefix name\<close>, also
  in the \<^verbatim>\<open>KeyName\<close> stack parameter; key object called \<^verbatim>\<open>keys/\<close> and \<open>prefix name\<close>).
  A Create that returns no error has created exactly the keypair, the object and the
  stack of these names; a Destroy that returns no error has deleted exactly these three;
  a Describe that returns no error has read exactly this stack and this object.
\<close>

theorem C9_one_naming_scheme:
  "prefix name = ''classroom-'' @ name
   \<and> list_all (follows_scheme name) (new_calls w (snd (CreateClassroom c name number w)))
   \<and> list_all (follows_scheme name) (new_calls w (snd (DestroyClassroom c name w)))
   \<and> list_all (follows_scheme name) (new_calls w (snd (DescribeClassroom enc c name format w)))
   \<and> (fst (CreateClassroom c name number w) = None \<longrightarrow>
        List.map_filter creates (new_calls w (snd (CreateClassroom c name number w)))
          = [Keypair (prefix name), Object (''keys/'' @ prefix name), Stack (prefix name)])
   \<and> (fst (DestroyClassroom c name w) = None \<longrightarrow>
        List.map_filter deletes (new_calls w (snd (DestroyClassroom c name w)))
          = [Stack (prefix name), Keypair (prefix name), Object (''keys/'' @ prefix name)])
   \<and> (snd (fst (DescribeClassroom enc c name format w)) = None \<longrightarrow>
        List.map_filter reads (new_calls w (snd (DescribeClassroom enc c name format w)))
          = [Stack (prefix name), Object (''keys/'' @ prefix name)])"
proof -
  have p: "prefix name = ''classroom-'' @ name"
    by (simp add: prefix_def)
  obtain e1 w1 where r1: "CreateClassroom c name number w = (e1, w1)"
    by (cases "CreateClassroom c name number w")
  obtain e2 w2 where r2: "DestroyClassroom c name w = (e2, w2)"
    by (cases "DestroyClassroom c name w")
  obtain out e3 w3 where r3: "DescribeClassroom enc c name format w = ((out, e3), w3)"
    by (cases "DescribeClassroom enc c name format w") auto
  have s1: "list_all (follows_scheme name) (new_calls w w1)
            \<and> (e1 = None \<longrightarrow> List.map_filter creates (new_calls w w1)
                  = [Keypair (prefix name), Object (''keys/'' @ prefix name), Stack (prefix name)])"
    using CreateClassroom_shape [where c = c and name = name and number = number and w = w] r1
    by auto
  have s2: "list_all (follows_scheme name) (new_calls w w2)
            \<and> (e2 = None \<longrightarrow> List.map_filter deletes (new_calls w w2)
                  = [Stack (prefix name), Keypair (prefix name), Object (''keys/'' @ prefix name)])"
    using DestroyClassroom_shape [where c = c and name = name and w = w] r2
    by auto
  have s3: "list_all (follows_scheme name) (new_calls w w3)
            \<and> (e3 = None \<longrightarrow> List.map_filter reads (new_calls w w3)
                  = [Stack (prefix name), Object (''keys/'' @ prefix name)])"
    using DescribeClassroom_shape [where enc = enc and c = c and name = name and format = format and w = w] r3
    by auto
  show ?thesis
    using p s1 s2 s3 by (simp add: r1 r2 r3)
qed

theorem C9_witness:
  "fst (CreateClassroom fakeController ''demo'' 3 w_init) = None
   \<and> fst (DestroyClassroom fakeController ''demo'' w_init) = None
   \<and> snd (fst (DescribeClassroom quoted fakeController ''demo'' ''json'' w_init)) = None
   \<and> List.map_filter creates
        (new_calls w_init (snd (CreateClassroom fakeController ''demo'' 3 w_init)))
       = [Keypair ''classroom-demo'', Object ''keys/classroom-demo'', Stack ''classroom-demo'']
   \<and> List.map_filter deletes
        (new_calls w_init (snd (DestroyClassroom fakeController ''demo'' w_init)))
       = [Stack ''classroom-demo'', Keypair ''classroom-demo'', Object ''keys/classroom-demo'']
   \<and> List.map_filter reads
        (new_calls w_init
           (snd (DescribeClassroom quoted fakeController ''demo'' ''json'' w_init)))
       = [Stack ''classroom-demo'', Object ''keys/classroom-demo'']"
proof -
  have h1: "fst (CreateClassroom fakeController ''demo'' 3 w_init) = None"
    by (simp add: CreateClassroom_def Let_def fake_simps example_names)
  have h2: "fst (DestroyClassroom fakeController ''demo'' w_init) = None"
    by (simp add: DestroyClassroom_def Let_def fake_simps)
  have h3: "snd (fst (DescribeClassroom quoted fakeController ''demo'' ''json'' w_init)) = None"
    by (simp add: DescribeClassroom_def Let_def fake_simps Atoi_examples)
  show ?thesis
    using h1 h2 h3 C9_one_naming_scheme [of "''demo''" w_init fakeController 3 quoted "''json''"]
    by (simp add: prefix_def)
qed

text \<open>
  C10. \<open>CreateClassroom\<close> does not validate the instance count. For every integer
  \<open>number\<close>, zero and negative ones included, a run whose earlier steps succeed calls
  \<open>CreateStack\<close> with the parameter \<^verbatim>\<open>InstanceCount\<close> set to \<open>Itoa number\<close>, and returns
  what \<open>CreateStack\<close> returns. None of the conditions on the earlier steps mentions
  \<open>number\<close>.
\<close>

theorem C10_instance_count_passed_unchecked:
  assumes "MatchString regex name"
    and "GetLatestAMIs (AtlasClient c) (calls w) (VagrantBoxName c) = (amiMap, None)"
    and "amiMap (Region c) = Some ami"
    and "CreateKey (AWSClient c) (calls w @ [Call_GetLatestAMIs (VagrantBoxName c)]) (prefix name)
           = (key, None)"
    and "StoreObject (AWSClient c)
           (calls w @ [Call_GetLatestAMIs (VagrantBoxName c), Call_CreateKey (prefix name),
                       Call_URLForObject (''keys/'' @ prefix name)])
           (''keys/'' @ prefix name) key ''bosh101_ssh_key.pem'' ''application/x-pem-file'' = None"
  shows "calls (snd (CreateClassroom c name number w))
          = calls w @ [Call_GetLatestAMIs (VagrantBoxName c), Call_CreateKey (prefix name),
                       Call_URLForObject (''keys/'' @ prefix name),
                       Call_StoreObject (''keys/'' @ prefix name) key
                         ''bosh101_ssh_key.pem'' ''application/x-pem-file'',
                       Call_CreateStack (prefix name) (Template c)
                         [''AMI'' \<mapsto> ami, ''KeyName'' \<mapsto> prefix name,
                          ''InstanceCount'' \<mapsto> Itoa number]]
       \<and> fst (CreateClassroom c name number w)
          = snd (CreateStack (AWSClient c)
                  (calls w @ [Call_GetLatestAMIs (VagrantBoxName c), Call_CreateKey (prefix name),
                       Call_URLForObject (''keys/'' @ prefix name),
                       Call_StoreObject (''keys/'' @ prefix name) key
                         ''bosh101_ssh_key.pem'' ''application/x-pem-file''])
                  (prefix name) (Template c)
                  [''AMI'' \<mapsto> ami, ''KeyName'' \<mapsto> prefix name,
                   ''InstanceCount'' \<mapsto> Itoa number])"
  using assms by (simp add: CreateClassroom_def Let_def split: prod.splits)

theorem C10_witness:
  "MatchString regex ''demo''
   \<and> CreateKey (AWSClient fakeController) [Call_GetLatestAMIs ''box''] ''classroom-demo''
       = (''PEM'', None)
   \<and> calls (snd (CreateClassroom fakeController ''demo'' (- 2) w_init))
       = [Call_GetLatestAMIs ''box'', Call_CreateKey ''classroom-demo'',
          Call_URLForObject ''keys/classroom-demo'',
          Call_StoreObject ''keys/classroom-demo'' ''PEM''
            ''bosh101_ssh_key.pem'' ''application/x-pem-file'',
          Call_CreateStack ''classroom-demo'' ''template''
            [''AMI'' \<mapsto> ''ami-1234'', ''KeyName'' \<mapsto> ''classroom-demo'',
             ''InstanceCount'' \<mapsto> ''-2'']]
   \<and> fst (CreateClassroom fakeController ''demo'' (- 2) w_init) = None"
proof -
  have h1: "MatchString regex ''demo''"
    by (simp add: example_names)
  have h2: "GetLatestAMIs (AtlasClient fakeController) (calls w_init) (VagrantBoxName fakeController)
              = ([''us-east-1'' \<mapsto> ''ami-1234''], None)"
    by (simp add: fake_simps)
  have h3: "[''us-east-1'' \<mapsto> ''ami-1234''] (Region fakeController) = Some ''ami-1234''"
    by (simp add: fake_simps)
  have h4: "CreateKey (AWSClient fakeController)
              (calls w_init @ [Call_GetLatestAMIs (VagrantBoxName fakeController)])
              (prefix ''demo'') = (''PEM'', None)"
    by (simp add: fake_simps)
  have h5: "StoreObject (AWSClient fakeController)
              (calls w_init @ [Call_GetLatestAMIs (VagrantBoxName fakeController),
                               Call_CreateKey (prefix ''demo''),
                               Call_URLForObject (''keys/'' @ prefix ''demo'')])
              (''keys/'' @ prefix ''demo'') ''PEM'' ''bosh101_ssh_key.pem''
              ''application/x-pem-file'' = None"
    by (simp add: fake_simps)
  show ?thesis
    using h1 C10_instance_count_passed_unchecked [OF h1 h2 h3 h4 h5, of "- 2"]
    by (simp add: fake_simps prefix_def Itoa_examples)
qed

end
